theory Spec2Isabelle
  imports Complex_Main
begin

section \<open>Route search and route statistics of source.py\<close>

text \<open>
  The program computes, on a road network held as a directed multigraph, the best route
  between two points under one of four priorities (\<open>distancia\<close>, \<open>tempo\<close>,
  \<open>combustivel\<close>, \<open>custo\<close>) and the statistics of that route. Two functions carry the
  logic: \<open>find_best_route\<close> and \<open>calculate_route_statistics\<close>.

  Numbers: Python floats are idealised as exact rationals (\<open>rat\<close>), and every
  statement below is about this exact arithmetic unless it says otherwise. \<open>round(x, 4)\<close>
  gives the multiple of 0.0001 nearest to \<open>x\<close>; where \<open>x\<close> lies exactly half-way between
  two of them, the program, which rounds a binary float, may give either, and the
  direction it takes is a parameter (\<open>ties_up\<close>). The two weight formulas of lines 65 and
  68 are also given in binary floating point (\<open>fl\<close>), where they differ.
\<close>

subsection \<open>Vehicle parameters (lines 16 to 18)\<close>

definition AVERAGE_SPEED_KMH :: rat where
  "AVERAGE_SPEED_KMH = 30"

definition FUEL_CONSUMPTION_PER_KM :: rat where
  "FUEL_CONSUMPTION_PER_KM = 1 / 10"

definition FUEL_COST_PER_LITER :: rat where
  "FUEL_COST_PER_LITER = 11 / 2"

subsection \<open>Data model\<close>

text \<open>
  A node is an identifier with its coordinates \<open>x\<close> (longitude) and \<open>y\<close> (latitude). An
  edge is a pair of node identifiers with its attribute dictionary; the list of edges
  keeps parallel edges and their order of insertion. Only numeric attributes are
  modelled.
\<close>

type_synonym node = nat

type_synonym attrs = "string \<rightharpoonup> rat"

record graph =
  nodes :: "(node \<times> rat \<times> rat) list"
  edges :: "(node \<times> node \<times> attrs) list"

definition node_ids :: "graph \<Rightarrow> node list" where
  "node_ids g = map fst (nodes g)"

text \<open>\<open>d.get(k, dflt)\<close> and \<open>d.setdefault(k, v)\<close> of a Python dictionary.\<close>

definition dict_get :: "attrs \<Rightarrow> string \<Rightarrow> rat \<Rightarrow> rat" where
  "dict_get d k dflt = (case d k of None \<Rightarrow> dflt | Some v \<Rightarrow> v)"

definition setdefault :: "attrs \<Rightarrow> string \<Rightarrow> rat \<Rightarrow> attrs" where
  "setdefault d k v = (case d k of None \<Rightarrow> d(k \<mapsto> v) | Some _ \<Rightarrow> d)"

subsection \<open>Rounding\<close>

text \<open>
  The integer nearest to \<open>y\<close>; when \<open>y\<close> is half-way between two integers, the upper one
  if \<open>up\<close> and the lower one otherwise.
\<close>

definition round_half :: "bool \<Rightarrow> rat \<Rightarrow> int" where
  "round_half up y =
     (let f = \<lfloor>y\<rfloor>; r = y - of_int f
      in if r < 1 / 2 then f
         else if 1 / 2 < r then f + 1
         else if up then f + 1 else f)"

text \<open>
  \<open>round(x, n)\<close>. \<open>ties_up x\<close> says which way the program's rounding goes when \<open>x\<close> is a
  decimal tie; away from ties the result does not depend on it.
\<close>

definition py_round :: "(rat \<Rightarrow> bool) \<Rightarrow> rat \<Rightarrow> nat \<Rightarrow> rat" where
  "py_round ties_up x n = of_int (round_half (ties_up x) (x * 10 ^ n)) / 10 ^ n"

subsection \<open>The weight of an edge under each priority (lines 59 to 70)\<close>

text \<open>
  The weight handed to the path search is either the name of an edge attribute
  (\<open>'length'\<close>, \<open>'travel_time'\<close>) or a callable on a dictionary (the two lambdas).
\<close>

datatype weight = ByAttr string | ByCallable "attrs \<Rightarrow> rat"

text \<open>The lambda of line 65 (\<open>combustivel\<close>) and the lambda of line 68 (\<open>custo\<close>).\<close>

definition fuel_weight :: "attrs \<Rightarrow> rat" where
  "fuel_weight d =
     dict_get d ''length'' 0 * FUEL_CONSUMPTION_PER_KM
     + (dict_get d ''grade_abs'' 0 / 100) * dict_get d ''length'' 0 * FUEL_CONSUMPTION_PER_KM"

definition cost_weight :: "attrs \<Rightarrow> rat" where
  "cost_weight d =
     (dict_get d ''length'' 0 * FUEL_CONSUMPTION_PER_KM * FUEL_COST_PER_LITER)
     + ((dict_get d ''grade_abs'' 0 / 100) * dict_get d ''length'' 0
          * FUEL_CONSUMPTION_PER_KM * FUEL_COST_PER_LITER)"

datatype lib_call = NearestNodes | AddEdgeSpeeds | AddEdgeTravelTimes | ShortestPath

text \<open>
  \<open>InvalidPriority\<close> is the \<open>ValueError\<close> raised at line 70; \<open>LibraryError c\<close> is an
  exception raised inside the library call \<open>c\<close>, which \<open>find_best_route\<close> does not catch.
  \<open>NonFinite\<close> is no exception of the program: a speed of zero makes a travel time
  infinite or undefined, the program goes on with that value, and this arithmetic, which
  has no such value, follows the run no further.
\<close>

datatype error = InvalidPriority | LibraryError lib_call | NonFinite

definition select_weight :: "string \<Rightarrow> error + weight" where
  "select_weight priority =
     (if priority = ''distancia'' then Inr (ByAttr ''length'')
      else if priority = ''tempo'' then Inr (ByAttr ''travel_time'')
      else if priority = ''combustivel'' then Inr (ByCallable fuel_weight)
      else if priority = ''custo'' then Inr (ByCallable cost_weight)
      else Inl InvalidPriority)"

subsection \<open>The two weight formulas in binary floating point\<close>

text \<open>
  \<open>fl x\<close> is the binary64 number nearest to \<open>x\<close> (53 significant bits, ties to the even
  significand); overflow and subnormal numbers are left out, the values here being of
  the order of 1. \<open>exponent x\<close> is the integer \<open>e\<close> with \<open>2 ^ e \<le> \<bar>x\<bar> < 2 ^ (e + 1)\<close>.
\<close>

fun ilog2 :: "nat \<Rightarrow> nat" where
  "ilog2 n = (if n < 2 then 0 else Suc (ilog2 (n div 2)))"

definition pow2 :: "int \<Rightarrow> rat" where
  "pow2 e = (if 0 \<le> e then 2 ^ nat e else 1 / 2 ^ nat (- e))"

definition exponent :: "rat \<Rightarrow> int" where
  "exponent x =
     (if 1 \<le> \<bar>x\<bar> then int (ilog2 (nat \<lfloor>\<bar>x\<bar>\<rfloor>))
      else - int (Suc (ilog2 (nat (\<lceil>1 / \<bar>x\<bar>\<rceil> - 1)))))"

definition round_half_even :: "rat \<Rightarrow> int" where
  "round_half_even y = round_half (odd \<lfloor>y\<rfloor>) y"

definition fl :: "rat \<Rightarrow> rat" where
  "fl x =
     (if x = 0 then 0
      else (let u = pow2 (exponent x - 52) in of_int (round_half_even (x / u)) * u))"

text \<open>
  The lambdas of lines 65 and 68 with every operation rounded, in the order in which
  Python evaluates them. The constant 0.1 is the binary64 number nearest to one tenth;
  5.5 and 100 are exact. The attribute values are taken to be binary64 numbers already.
\<close>

definition fuel_weight_fl :: "attrs \<Rightarrow> rat" where
  "fuel_weight_fl d =
     (let l = dict_get d ''length'' 0; g = dict_get d ''grade_abs'' 0;
          c = fl FUEL_CONSUMPTION_PER_KM
      in fl (fl (l * c) + fl (fl (fl (g / 100) * l) * c)))"

definition cost_weight_fl :: "attrs \<Rightarrow> rat" where
  "cost_weight_fl d =
     (let l = dict_get d ''length'' 0; g = dict_get d ''grade_abs'' 0;
          c = fl FUEL_CONSUMPTION_PER_KM; p = FUEL_COST_PER_LITER
      in fl (fl (fl (l * c) * p) + fl (fl (fl (fl (g / 100) * l) * c) * p)))"

subsection \<open>Defaulting of the edge length (lines 73 and 74)\<close>

definition default_lengths :: "graph \<Rightarrow> graph" where
  "default_lengths g =
     g\<lparr>edges := map (\<lambda>(u, v, data). (u, v, setdefault data ''length'' 0)) (edges g)\<rparr>"

subsection \<open>The routing library, as far as the program relies on it\<close>

text \<open>
  \<open>find_best_route\<close> and \<open>calculate_route_statistics\<close> call the routing library
  (osmnx on top of networkx). What those calls do is written here from the library's
  documentation, on the multigraph model above.

  Three things are taken as parameters of \<open>find_best_route\<close>, since they depend on
  data or on choices outside this model (great-circle distances, speed limits by road
  type, the order in which the search meets the paths):
  \<^item> \<open>nearest_nodes g x y\<close>, the identifier of the node nearest to longitude \<open>x\<close> and
    latitude \<open>y\<close>, or \<open>None\<close> when the call raises;
  \<^item> \<open>add_edge_speeds g\<close>, the graph with a speed on its edges, or \<open>None\<close> when the call
    raises;
  \<^item> \<open>tie_break\<close>, the route the path search returns among several of the same least
    weight.
  \<open>nearest_planar\<close> (nearest node by planar distance, as for a projected graph),
  \<open>uniform_speeds\<close> and \<open>hd\<close> (the first path found) are instances to run the program on
  concrete graphs.
\<close>

definition nearest_planar :: "graph \<Rightarrow> rat \<Rightarrow> rat \<Rightarrow> node option" where
  "nearest_planar g x y =
     (case nodes g of
        [] \<Rightarrow> None
      | n # ns \<Rightarrow>
          Some (fst (arg_min_list (\<lambda>(i, nx, ny). (nx - x)\<^sup>2 + (ny - y)\<^sup>2) (n # ns))))"

definition uniform_speeds :: "rat \<Rightarrow> graph \<Rightarrow> graph option" where
  "uniform_speeds s g =
     (case edges g of
        [] \<Rightarrow> None
      | e # es \<Rightarrow>
          Some (g\<lparr>edges := map (\<lambda>(u, v, data). (u, v, data(''speed_kph'' \<mapsto> s))) (e # es)\<rparr>))"

text \<open>
  \<open>ox.add_edge_travel_times\<close>: raises unless the graph has edges and every edge has a
  \<open>length\<close> and a \<open>speed_kph\<close>; otherwise every edge gets \<open>travel_time\<close>, in seconds,
  the length in kilometres divided by the speed in kilometres per second. With a speed
  of zero on some edge the result is \<open>NonFinite\<close>.
\<close>

definition has_speed_and_length :: "attrs \<Rightarrow> bool" where
  "has_speed_and_length d =
     (case d ''length'' of
        None \<Rightarrow> False
      | Some l \<Rightarrow> (case d ''speed_kph'' of None \<Rightarrow> False | Some s \<Rightarrow> True))"

definition travel_time_of :: "attrs \<Rightarrow> rat" where
  "travel_time_of d =
     (dict_get d ''length'' 0 / 1000) / (dict_get d ''speed_kph'' 0 / (60 * 60))"

definition add_edge_travel_times :: "graph \<Rightarrow> error + graph" where
  "add_edge_travel_times g =
     (if edges g \<noteq> [] \<and> list_all (\<lambda>(u, v, data). has_speed_and_length data) (edges g)
      then
        if list_ex (\<lambda>(u, v, data). data ''speed_kph'' = Some 0) (edges g)
        then Inl NonFinite
        else Inr (g\<lparr>edges :=
               map (\<lambda>(u, v, data). (u, v, data(''travel_time'' \<mapsto> travel_time_of data))) (edges g)\<rparr>)
      else Inl (LibraryError AddEdgeTravelTimes))"

text \<open>
  \<open>G[u]\<close>, the successors of a node, and \<open>G[u][v]\<close>, the attribute dictionaries of the
  parallel edges from \<open>u\<close> to \<open>v\<close>, in order of insertion.
\<close>

definition successors :: "graph \<Rightarrow> node \<Rightarrow> node list" where
  "successors g u = remdups (map (\<lambda>(a, b, data). b) (filter (\<lambda>(a, b, data). a = u) (edges g)))"

definition parallel :: "graph \<Rightarrow> node \<Rightarrow> node \<Rightarrow> attrs list" where
  "parallel g u v = map (\<lambda>(a, b, data). data) (filter (\<lambda>(a, b, data). a = u \<and> b = v) (edges g))"

text \<open>
  The weight of a hop from \<open>u\<close> to \<open>v\<close> in the path search. For an attribute name it is
  the least value of that attribute over the parallel edges, an edge without the
  attribute counting 1. A callable is handed \<open>G[u][v]\<close> itself, which on a multigraph is
  the dictionary from edge keys (0, 1, ...) to attribute dictionaries: looking an
  attribute name up in it finds nothing.
\<close>

definition adjacency_view :: "attrs list \<Rightarrow> attrs" where
  "adjacency_view ds = Map.empty"

fun hop_weight :: "weight \<Rightarrow> attrs list \<Rightarrow> rat" where
  "hop_weight (ByAttr k) ds = min_list (map (\<lambda>d. dict_get d k 1) ds)"
| "hop_weight (ByCallable f) ds = f (adjacency_view ds)"

fun path_weight :: "graph \<Rightarrow> weight \<Rightarrow> node list \<Rightarrow> rat" where
  "path_weight g w (u # v # p) = hop_weight w (parallel g u v) + path_weight g w (v # p)"
| "path_weight g w p = 0"

text \<open>
  The paths from \<open>u\<close> to \<open>t\<close> that visit no node twice and avoid the nodes of \<open>seen\<close>,
  with at most \<open>n\<close> hops.
\<close>

fun simple_paths :: "graph \<Rightarrow> nat \<Rightarrow> node list \<Rightarrow> node \<Rightarrow> node \<Rightarrow> node list list" where
  "simple_paths g 0 seen u t = (if u = t then [[u]] else [])"
| "simple_paths g (Suc n) seen u t =
     (if u = t then [[u]]
      else concat (map (\<lambda>v. map ((#) u) (simple_paths g n (u # seen) v t))
                       (filter (\<lambda>v. v \<notin> set (u # seen)) (successors g u))))"

text \<open>The paths of \<open>ps\<close> whose weight is the least weight of a path of \<open>ps\<close>.\<close>

definition least_paths :: "graph \<Rightarrow> weight \<Rightarrow> node list list \<Rightarrow> node list list" where
  "least_paths g w ps =
     filter (\<lambda>p. path_weight g w p = min_list (map (path_weight g w) ps)) ps"

text \<open>
  \<open>ox.shortest_path(G, orig, dest, weight)\<close>: a path of least total weight from \<open>orig\<close> to
  \<open>dest\<close>. The call first reads the weight attribute of all edges and raises on a graph
  without edges; it raises when \<open>orig\<close> or \<open>dest\<close> is not a node of the graph; and it
  returns Python's \<open>None\<close> (here \<open>Inr None\<close>) when no path exists: the library catches
  the path search's own exception and logs a warning. Which of several paths of the same
  least weight the search returns is the library's own choice, the parameter
  \<open>tie_break\<close>: it is given the paths of least weight and picks one of them (a pick
  outside them is not taken).
\<close>

definition shortest_path ::
  "(node list list \<Rightarrow> node list) \<Rightarrow> graph \<Rightarrow> node \<Rightarrow> node \<Rightarrow> weight
   \<Rightarrow> error + node list option" where
  "shortest_path tie_break g orig dest w =
     (if edges g = [] then Inl (LibraryError ShortestPath)
      else if orig \<in> set (node_ids g) \<and> dest \<in> set (node_ids g)
      then (case least_paths g w (simple_paths g (length (edges g)) [] orig dest) of
              [] \<Rightarrow> Inr None
            | p # ps \<Rightarrow>
                Inr (Some (if tie_break (p # ps) \<in> set (p # ps)
                           then tie_break (p # ps) else p)))
      else Inl (LibraryError ShortestPath))"

text \<open>
  \<open>ox.routing.route_to_gdf(G, route)\<close>: the table with one row per hop of the route, the
  row of a hop being the attributes of its shortest parallel edge. The columns of the
  table are those of the edges among the route's nodes (\<open>frame\<close>). The call raises when
  there is no edge among the route's nodes, when a hop has no edge, or when an edge of a
  hop has no \<open>length\<close>.
\<close>

record route_gdf =
  frame :: "attrs list"
  rows :: "attrs list"

definition subgraph_edges :: "graph \<Rightarrow> node list \<Rightarrow> attrs list" where
  "subgraph_edges g route =
     map (\<lambda>(a, b, data). data) (filter (\<lambda>(a, b, data). a \<in> set route \<and> b \<in> set route) (edges g))"

fun route_rows :: "graph \<Rightarrow> node list \<Rightarrow> attrs list option" where
  "route_rows g (u # v # p) =
     (case parallel g u v of
        [] \<Rightarrow> None
      | d # ds \<Rightarrow>
          if list_all (\<lambda>e. e ''length'' \<noteq> None) (d # ds)
          then (case route_rows g (v # p) of
                  None \<Rightarrow> None
                | Some rs \<Rightarrow> Some (arg_min_list (\<lambda>e. dict_get e ''length'' 0) (d # ds) # rs))
          else None)"
| "route_rows g p = Some []"

definition route_to_gdf :: "graph \<Rightarrow> node list \<Rightarrow> route_gdf option" where
  "route_to_gdf g route =
     (case subgraph_edges g route of
        [] \<Rightarrow> None
      | e # es \<Rightarrow>
          (case route_rows g route of
             None \<Rightarrow> None
           | Some rs \<Rightarrow> Some \<lparr>frame = e # es, rows = rs\<rparr>))"

text \<open>\<open>k in gdf.columns\<close>, and \<open>gdf[k].sum()\<close>, which skips the rows without a value.\<close>

definition has_column :: "route_gdf \<Rightarrow> string \<Rightarrow> bool" where
  "has_column gdf k = list_ex (\<lambda>d. d k \<noteq> None) (frame gdf)"

definition column_sum :: "route_gdf \<Rightarrow> string \<Rightarrow> rat" where
  "column_sum gdf k = sum_list (map (\<lambda>d. dict_get d k 0) (rows gdf))"

subsection \<open>calculate_route_statistics (lines 32 to 46)\<close>

text \<open>
  The fields are the entries of the returned dictionary, named after the local variables
  that hold them. \<open>None\<close> is an exception of \<open>route_to_gdf\<close> or of the lookup of the
  \<open>length\<close> column. \<open>ties_up\<close> is the direction of \<open>round\<close> at a decimal tie.
\<close>

record statistics =
  total_distance_km :: rat
  total_time_min :: rat
  total_fuel_cost :: rat
  fuel_used_liters :: rat
  elevation_gain :: rat

definition calculate_route_statistics ::
  "(rat \<Rightarrow> bool) \<Rightarrow> graph \<Rightarrow> node list \<Rightarrow> statistics option" where
  "calculate_route_statistics ties_up g route =
     (case route_to_gdf g route of
        None \<Rightarrow> None
      | Some gdf \<Rightarrow>
          if has_column gdf ''length''
          then
            (let distance_km = py_round ties_up (column_sum gdf ''length'' / 1000) 4;
                 time_min = py_round ties_up ((distance_km / AVERAGE_SPEED_KMH) * 60) 4;
                 fuel_liters = py_round ties_up (distance_km * FUEL_CONSUMPTION_PER_KM) 4;
                 fuel_cost = py_round ties_up (fuel_liters * FUEL_COST_PER_LITER) 4;
                 gain = (if has_column gdf ''grade_abs''
                         then py_round ties_up (column_sum gdf ''grade_abs'') 4 else 0)
             in Some \<lparr>total_distance_km = distance_km, total_time_min = time_min,
                      total_fuel_cost = fuel_cost, fuel_used_liters = fuel_liters,
                      elevation_gain = gain\<rparr>)
          else None)"

subsection \<open>find_best_route (lines 49 to 77)\<close>

text \<open>
  The function returns its result (a route, Python's \<open>None\<close>, or the exception that
  leaves it) together with the graph as the call leaves it: \<open>add_edge_speeds\<close>,
  \<open>add_edge_travel_times\<close> and the \<open>setdefault\<close> loop change the caller's graph in place.
  A point is a pair (latitude, longitude).
\<close>

definition find_best_route ::
  "(graph \<Rightarrow> rat \<Rightarrow> rat \<Rightarrow> node option) \<Rightarrow> (graph \<Rightarrow> graph option) \<Rightarrow>
   (node list list \<Rightarrow> node list) \<Rightarrow>
   graph \<Rightarrow> rat \<times> rat \<Rightarrow> rat \<times> rat \<Rightarrow> string \<Rightarrow> (error + node list option) \<times> graph" where
  "find_best_route nearest_nodes add_edge_speeds tie_break g point_a point_b priority =
     (case nearest_nodes g (snd point_a) (fst point_a) of
        None \<Rightarrow> (Inl (LibraryError NearestNodes), g)
      | Some orig_node \<Rightarrow>
     (case nearest_nodes g (snd point_b) (fst point_b) of
        None \<Rightarrow> (Inl (LibraryError NearestNodes), g)
      | Some dest_node \<Rightarrow>
     (case (if priority = ''tempo''
            then (case add_edge_speeds g of
                    None \<Rightarrow> (Some (LibraryError AddEdgeSpeeds), g)
                  | Some g1 \<Rightarrow>
                      (case add_edge_travel_times g1 of
                         Inl e \<Rightarrow> (Some e, g1)
                       | Inr g2 \<Rightarrow> (None, g2)))
            else (None, g)) of
        (Some e, g') \<Rightarrow> (Inl e, g')
      | (None, g') \<Rightarrow>
     (case select_weight priority of
        Inl e \<Rightarrow> (Inl e, g')
      | Inr w \<Rightarrow>
          (shortest_path tie_break (default_lengths g') orig_node dest_node w,
           default_lengths g')))))"

subsection \<open>The priorities of the main loop (line 161)\<close>

definition criteria :: "string list" where
  "criteria = [''distancia'', ''tempo'', ''combustivel'', ''custo'']"

subsection \<open>Vocabulary of the properties\<close>

text \<open>
  \<open>edge_rel g\<close> relates \<open>u\<close> to \<open>v\<close> when the graph has an edge from \<open>u\<close> to \<open>v\<close>; a path
  from \<open>u\<close> to \<open>v\<close> exists when the pair is in its reflexive transitive closure.
  \<open>same_network g g'\<close>: the two graphs have the same nodes and the same edges, up to the
  attributes. \<open>nonneg_graph g\<close>: no edge has a negative \<open>length\<close> or \<open>grade_abs\<close>.
\<close>

definition edge_rel :: "graph \<Rightarrow> (node \<times> node) set" where
  "edge_rel g = {(u, v). \<exists>data. (u, v, data) \<in> set (edges g)}"

definition same_network :: "graph \<Rightarrow> graph \<Rightarrow> bool" where
  "same_network g g' =
     (node_ids g' = node_ids g
      \<and> map (\<lambda>(u, v, data). (u, v)) (edges g') = map (\<lambda>(u, v, data). (u, v)) (edges g))"

definition nonneg_attrs :: "attrs \<Rightarrow> bool" where
  "nonneg_attrs d = (0 \<le> dict_get d ''length'' 0 \<and> 0 \<le> dict_get d ''grade_abs'' 0)"

definition nonneg_graph :: "graph \<Rightarrow> bool" where
  "nonneg_graph g = list_all (\<lambda>(u, v, data). nonneg_attrs data) (edges g)"

text \<open>\<open>walk g p\<close>: each node of \<open>p\<close> is joined to the next one by an edge of the graph.\<close>

fun walk :: "graph \<Rightarrow> node list \<Rightarrow> bool" where
  "walk g (u # v # p) = ((u, v) \<in> edge_rel g \<and> walk g (v # p))"
| "walk g p = True"


subsection \<open>Concrete road networks\<close>

text \<open>
  \<open>chain_graph\<close>: the nodes A, B, C (1, 2, 3) on a line, an edge of 1000 m from A to B
  and one of 2000 m from B to C, both flat. \<open>split_graph\<close>: two components, 1 to 2 and
  3 to 4. \<open>short_graph\<close>: one edge of 1234.4 m. \<open>tie_graph\<close>: one edge of 1117 m.
  \<open>empty_graph\<close>: no node at all.
\<close>

definition chain_graph :: graph where
  "chain_graph =
     \<lparr>nodes = [(1, 0, 0), (2, 1, 0), (3, 2, 0)],
      edges = [(1, 2, [''length'' \<mapsto> 1000, ''grade_abs'' \<mapsto> 0]),
               (2, 3, [''length'' \<mapsto> 2000, ''grade_abs'' \<mapsto> 0])]\<rparr>"

definition split_graph :: graph where
  "split_graph =
     \<lparr>nodes = [(1, 0, 0), (2, 1, 0), (3, 5, 0), (4, 6, 0)],
      edges = [(1, 2, [''length'' \<mapsto> 1000]), (3, 4, [''length'' \<mapsto> 2000])]\<rparr>"

definition short_graph :: graph where
  "short_graph =
     \<lparr>nodes = [(1, 0, 0), (2, 1, 0)],
      edges = [(1, 2, [''length'' \<mapsto> 12344 / 10])]\<rparr>"

definition empty_graph :: graph where
  "empty_graph = \<lparr>nodes = [], edges = []\<rparr>"

text \<open>
  \<open>detour_graph\<close>: from 1 to 3 either over 2, two roads of 1000 m with grade 5, or
  directly, one flat road of 5000 m.
\<close>

definition detour_graph :: graph where
  "detour_graph =
     \<lparr>nodes = [(1, 0, 0), (2, 1, 1), (3, 2, 0)],
      edges = [(1, 2, [''length'' \<mapsto> 1000, ''grade_abs'' \<mapsto> 5]),
               (2, 3, [''length'' \<mapsto> 1000, ''grade_abs'' \<mapsto> 5]),
               (1, 3, [''length'' \<mapsto> 5000, ''grade_abs'' \<mapsto> 0])]\<rparr>"

definition tie_graph :: graph where
  "tie_graph =
     \<lparr>nodes = [(1, 0, 0), (2, 1, 0)],
      edges = [(1, 2, [''length'' \<mapsto> 1117])]\<rparr>"

section \<open>Properties\<close>

subsection \<open>Weight functions\<close>

lemma setdefault_twice: "setdefault (setdefault d k v) k v = setdefault d k v"
  by (cases "d k") (simp_all add: setdefault_def)

text \<open>
  On an attribute dictionary the lambda of line 65 is, in exact arithmetic,
  \<open>length * FUEL_RATE * (1 + grade_abs / 100)\<close>, with \<open>length\<close> and \<open>grade_abs\<close> read
  as 0 when absent.
\<close>

lemma fuel_weight_product:
  "fuel_weight d =
     dict_get d ''length'' 0 * FUEL_CONSUMPTION_PER_KM * (1 + dict_get d ''grade_abs'' 0 / 100)"
  by (simp add: fuel_weight_def algebra_simps)

text \<open>
  The path search does not hand the lambda an attribute dictionary: it hands it the
  dictionary of the parallel edges, in which neither \<open>length\<close> nor \<open>grade_abs\<close> is a key.
  Both lambdas therefore give 0 on every hop, and every route weighs 0.
\<close>

lemma adjacency_weight:
  "fuel_weight (adjacency_view ds) = 0" "cost_weight (adjacency_view ds) = 0"
  by (simp_all add: adjacency_view_def fuel_weight_def cost_weight_def dict_get_def)

lemma callable_hop_weight:
  "hop_weight (ByCallable fuel_weight) ds = 0 \<and> hop_weight (ByCallable cost_weight) ds = 0"
  by (simp add: adjacency_weight)

lemma callable_path_weight:
  "path_weight g (ByCallable fuel_weight) p = 0 \<and> path_weight g (ByCallable cost_weight) p = 0"
  by (induction p rule: induct_list012) (simp_all add: adjacency_weight)

text \<open>
  C3, where the code departs from the claim. Under \<open>combustivel\<close> the weight handed to
  the search is the lambda of line 65, which on the attributes of the roads of
  \<open>detour_graph\<close> gives 105 for each road over node 2 and 500 for the direct road. In
  the search each hop weighs 0 instead, both routes from 1 to 3 weigh 0, and both are
  routes of least weight: the search cannot tell the route that needs 210 from the one
  that needs 500.
\<close>

theorem fuel_priority_weighs_every_hop_zero:
  "select_weight ''combustivel'' = Inr (ByCallable fuel_weight)
   \<and> fuel_weight [''length'' \<mapsto> 1000, ''grade_abs'' \<mapsto> 5] = 105
   \<and> fuel_weight [''length'' \<mapsto> 5000, ''grade_abs'' \<mapsto> 0] = 500
   \<and> hop_weight (ByCallable fuel_weight) (parallel detour_graph 1 2) = 0
   \<and> hop_weight (ByCallable fuel_weight) (parallel detour_graph 1 3) = 0
   \<and> least_paths detour_graph (ByCallable fuel_weight)
        (simple_paths detour_graph (length (edges detour_graph)) [] 1 3) = [[1, 2, 3], [1, 3]]"
proof -
  have "select_weight ''combustivel'' = Inr (ByCallable fuel_weight)"
    by (simp add: select_weight_def)
  moreover have "fuel_weight [''length'' \<mapsto> 1000, ''grade_abs'' \<mapsto> 5] = 105"
    and "fuel_weight [''length'' \<mapsto> 5000, ''grade_abs'' \<mapsto> 0] = 500"
    by (simp_all add: fuel_weight_def dict_get_def FUEL_CONSUMPTION_PER_KM_def)
  moreover have "simple_paths detour_graph (length (edges detour_graph)) [] 1 3
      = [[1, 2, 3], [1, 3]]"
    by code_simp
  then have "least_paths detour_graph (ByCallable fuel_weight)
        (simple_paths detour_graph (length (edges detour_graph)) [] 1 3) = [[1, 2, 3], [1, 3]]"
    by (simp add: least_paths_def adjacency_weight)
  ultimately show ?thesis
    by (simp add: adjacency_weight)
qed

text \<open>
  C4, as the code has it. The cost weight is written out by its own formula (line 68),
  not computed from the fuel weight. In exact arithmetic the two agree: the cost weight
  of an attribute dictionary is its fuel weight times the price of a litre, and so is
  the cost weight of a hop in the search (both are 0 there). In binary floating point
  the two formulas need not agree in the last digits: see the counterexample.
\<close>

theorem cost_weight_is_fuel_weight_times_price:
  "cost_weight d = fuel_weight d * FUEL_COST_PER_LITER
   \<and> hop_weight (ByCallable cost_weight) ds
       = hop_weight (ByCallable fuel_weight) ds * FUEL_COST_PER_LITER"
proof -
  have "cost_weight d = fuel_weight d * FUEL_COST_PER_LITER"
    by (simp add: cost_weight_def fuel_weight_def algebra_simps)
  then show ?thesis
    by (simp add: adjacency_weight)
qed

text \<open>
  For a length of 3 and a grade of 3 the program's cost weight is 1.6995000000000005,
  and its fuel weight 0.30900000000000005 times 5.5 is 1.6995000000000002.
\<close>

theorem cost_weight_float_counterexample:
  "cost_weight_fl [''length'' \<mapsto> 3, ''grade_abs'' \<mapsto> 3] = 29897920182485 / 17592186044416
   \<and> fl (fuel_weight_fl [''length'' \<mapsto> 3, ''grade_abs'' \<mapsto> 3] * FUEL_COST_PER_LITER)
       = 7653867566716159 / 4503599627370496
   \<and> cost_weight_fl [''length'' \<mapsto> 3, ''grade_abs'' \<mapsto> 3]
       \<noteq> fl (fuel_weight_fl [''length'' \<mapsto> 3, ''grade_abs'' \<mapsto> 3] * FUEL_COST_PER_LITER)"
  by code_simp

subsection \<open>Defaulting is idempotent\<close>

text \<open>
  C9. Running the length-defaulting pass twice leaves every edge, and the whole graph,
  as running it once does.
\<close>

theorem default_lengths_idempotent:
  "default_lengths (default_lengths g) = default_lengths g"
  by (simp add: default_lengths_def setdefault_twice case_prod_unfold comp_def)


subsection \<open>Rounding\<close>

lemma round_half_of_int: "round_half up (of_int k) = k"
  by (simp add: round_half_def)

lemma round_half_nonneg: "0 \<le> y \<Longrightarrow> 0 \<le> round_half up y"
  by (auto simp add: round_half_def Let_def)

lemma round_half_near: "\<bar>of_int (round_half up y) - y\<bar> \<le> 1 / 2"
proof -
  define f where "f = \<lfloor>y\<rfloor>"
  have lo: "of_int f \<le> y" and hi: "y < of_int f + 1"
    unfolding f_def by linarith+
  consider "y - of_int f < 1 / 2" | "1 / 2 < y - of_int f" | "y - of_int f = 1 / 2"
    by linarith
  then show ?thesis
  proof cases
    case 1
    then have "round_half up y = f"
      by (simp add: round_half_def f_def)
    then show ?thesis using lo 1 by simp
  next
    case 2
    then have "round_half up y = f + 1"
      by (simp add: round_half_def f_def)
    then show ?thesis using hi 2 by simp
  next
    case 3
    then have "round_half up y = f \<or> round_half up y = f + 1"
      by (simp add: round_half_def f_def Let_def)
    then show ?thesis using 3 by auto
  qed
qed

lemma py_round_nonneg: "0 \<le> x \<Longrightarrow> 0 \<le> py_round ties_up x n"
  by (simp add: py_round_def round_half_nonneg)

lemma py_round_grid: "py_round ties_up (of_int k / 10 ^ n) n = of_int k / 10 ^ n"
  by (simp add: py_round_def round_half_of_int)

lemma py_round_double:
  "py_round ties_up' (py_round ties_up x n * 2) n = py_round ties_up x n * 2"
proof -
  have "py_round ties_up x n * 2 = of_int (2 * round_half (ties_up x) (x * 10 ^ n)) / 10 ^ n"
    by (simp add: py_round_def)
  then show ?thesis
    using py_round_grid [of ties_up' "2 * round_half (ties_up x) (x * 10 ^ n)" n] by simp
qed

lemma py_round_near: "\<bar>py_round ties_up x n - x\<bar> \<le> 1 / (2 * 10 ^ n)"
proof -
  have "\<bar>of_int (round_half (ties_up x) (x * 10 ^ n)) - x * 10 ^ n\<bar> \<le> 1 / 2"
    by (rule round_half_near)
  then have "\<bar>of_int (round_half (ties_up x) (x * 10 ^ n)) - x * 10 ^ n\<bar> / 10 ^ n
      \<le> (1 / 2) / 10 ^ n"
    by (rule divide_right_mono) simp
  moreover have "py_round ties_up x n - x
      = (of_int (round_half (ties_up x) (x * 10 ^ n)) - x * 10 ^ n) / 10 ^ n"
    by (simp add: py_round_def diff_divide_distrib)
  then have "\<bar>py_round ties_up x n - x\<bar>
      = \<bar>of_int (round_half (ties_up x) (x * 10 ^ n)) - x * 10 ^ n\<bar> / 10 ^ n"
    by (simp add: abs_divide)
  ultimately show ?thesis by simp
qed

lemma parallel_edge: "d \<in> set (parallel g u v) \<Longrightarrow> (u, v, d) \<in> set (edges g)"
  by (auto simp: parallel_def)

lemma route_rows_edge:
  "route_rows g p = Some rs \<Longrightarrow> d \<in> set rs \<Longrightarrow> \<exists>a b. (a, b, d) \<in> set (edges g)"
proof (induction g p arbitrary: rs rule: route_rows.induct)
  case (1 g u v p)
  from "1.prems"(1) obtain e es rs' where par: "parallel g u v = e # es"
    and rest: "route_rows g (v # p) = Some rs'"
    and rs: "rs = arg_min_list (\<lambda>e. dict_get e ''length'' 0) (e # es) # rs'"
    and all: "list_all (\<lambda>e. e ''length'' \<noteq> None) (e # es)"
    by (auto split: list.splits if_splits option.splits)
  show ?case
  proof (cases "d \<in> set rs'")
    case True
    then show ?thesis using "1.IH" [OF par all rest] by blast
  next
    case False
    then have "d = arg_min_list (\<lambda>e. dict_get e ''length'' 0) (e # es)"
      using "1.prems"(2) rs by simp
    moreover have "arg_min_list (\<lambda>e. dict_get e ''length'' 0) (e # es) \<in> set (e # es)"
      by (rule arg_min_list_in) simp
    ultimately have "d \<in> set (parallel g u v)"
      using par by simp
    then show ?thesis
      using parallel_edge by blast
  qed
qed simp_all

lemma column_sum_nonneg:
  assumes "\<And>d. d \<in> set (rows gdf) \<Longrightarrow> 0 \<le> dict_get d k 0"
  shows "0 \<le> column_sum gdf k"
  unfolding column_sum_def by (rule sum_list_nonneg) (use assms in auto)

subsection \<open>Route statistics\<close>

lemma stats_fields:
  assumes "calculate_route_statistics ties_up g route = Some s"
  obtains gdf where "route_to_gdf g route = Some gdf"
    and "total_distance_km s = py_round ties_up (column_sum gdf ''length'' / 1000) 4"
    and "total_time_min s = py_round ties_up ((total_distance_km s / AVERAGE_SPEED_KMH) * 60) 4"
    and "fuel_used_liters s = py_round ties_up (total_distance_km s * FUEL_CONSUMPTION_PER_KM) 4"
    and "total_fuel_cost s = py_round ties_up (fuel_used_liters s * FUEL_COST_PER_LITER) 4"
    and "elevation_gain s = (if has_column gdf ''grade_abs''
                             then py_round ties_up (column_sum gdf ''grade_abs'') 4 else 0)"
  using assms unfolding calculate_route_statistics_def Let_def
  by (auto split: option.splits if_splits)

lemma gdf_rows_edge:
  assumes "route_to_gdf g route = Some gdf" "d \<in> set (rows gdf)"
  shows "\<exists>a b. (a, b, d) \<in> set (edges g)"
proof -
  from assms(1) obtain rs where "route_rows g route = Some rs" "rows gdf = rs"
    unfolding route_to_gdf_def by (auto split: list.splits option.splits)
  then show ?thesis
    using route_rows_edge assms(2) by blast
qed

text \<open>
  C7, as the code has it. For a graph without negative lengths or grades, and every
  route on which \<open>calculate_route_statistics\<close> returns, the five statistics are not
  negative, and the time is the rounded value of \<open>distance_km / AVERAGE_SPEED_KMH * 60\<close>,
  which in exact arithmetic is that value itself (twice the distance, which has four
  decimals already), whichever way the rounding goes at ties. The claim's
  \<open>distance_km * AVERAGE_SPEED_KMH / 60\<close> is another quantity: see the counterexample.
\<close>

theorem statistics_nonneg_and_time:
  assumes "calculate_route_statistics ties_up g route = Some s"
    and "nonneg_graph g"
  shows "0 \<le> total_distance_km s \<and> 0 \<le> total_time_min s \<and> 0 \<le> fuel_used_liters s
       \<and> 0 \<le> total_fuel_cost s \<and> 0 \<le> elevation_gain s
       \<and> total_time_min s = py_round ties_up ((total_distance_km s / AVERAGE_SPEED_KMH) * 60) 4
       \<and> total_time_min s = total_distance_km s / AVERAGE_SPEED_KMH * 60"
proof -
  from assms(1) obtain gdf where gdf: "route_to_gdf g route = Some gdf"
    and dist: "total_distance_km s = py_round ties_up (column_sum gdf ''length'' / 1000) 4"
    and time: "total_time_min s = py_round ties_up ((total_distance_km s / AVERAGE_SPEED_KMH) * 60) 4"
    and fuel: "fuel_used_liters s = py_round ties_up (total_distance_km s * FUEL_CONSUMPTION_PER_KM) 4"
    and cost: "total_fuel_cost s = py_round ties_up (fuel_used_liters s * FUEL_COST_PER_LITER) 4"
    and gain: "elevation_gain s = (if has_column gdf ''grade_abs''
                             then py_round ties_up (column_sum gdf ''grade_abs'') 4 else 0)"
    by (rule stats_fields)
  have row: "nonneg_attrs d" if "d \<in> set (rows gdf)" for d
  proof -
    from gdf_rows_edge [OF gdf that] obtain a b where "(a, b, d) \<in> set (edges g)"
      by blast
    with assms(2) show ?thesis
      by (auto simp: nonneg_graph_def list_all_iff)
  qed
  have len: "0 \<le> column_sum gdf ''length''"
    by (rule column_sum_nonneg) (use row in \<open>simp add: nonneg_attrs_def\<close>)
  have grd: "0 \<le> column_sum gdf ''grade_abs''"
    by (rule column_sum_nonneg) (use row in \<open>simp add: nonneg_attrs_def\<close>)
  have d0: "0 \<le> total_distance_km s"
    unfolding dist by (rule py_round_nonneg) (use len in simp)
  have t0: "0 \<le> total_time_min s"
    unfolding time by (rule py_round_nonneg) (use d0 in \<open>simp add: AVERAGE_SPEED_KMH_def\<close>)
  have f0: "0 \<le> fuel_used_liters s"
    unfolding fuel by (rule py_round_nonneg) (use d0 in \<open>simp add: FUEL_CONSUMPTION_PER_KM_def\<close>)
  have c0: "0 \<le> total_fuel_cost s"
    unfolding cost by (rule py_round_nonneg) (use f0 in \<open>simp add: FUEL_COST_PER_LITER_def\<close>)
  have g0: "0 \<le> elevation_gain s"
    unfolding gain using py_round_nonneg [OF grd] by simp
  have "total_distance_km s / AVERAGE_SPEED_KMH * 60 = total_distance_km s * 2"
    by (simp add: AVERAGE_SPEED_KMH_def)
  then have exact: "total_time_min s = total_distance_km s / AVERAGE_SPEED_KMH * 60"
    using time dist py_round_double [of ties_up ties_up "column_sum gdf ''length'' / 1000" 4]
    by simp
  from d0 t0 f0 c0 g0 time exact show ?thesis
    by blast
qed

text \<open>
  On the route A, B, C of \<open>chain_graph\<close> the distance is 3 km and the time 6 min, while
  \<open>3 * 30 / 60\<close> is 1.5.
\<close>

theorem statistics_time_counterexample:
  "(case calculate_route_statistics (\<lambda>x. False) chain_graph [1, 2, 3] of
      None \<Rightarrow> False
    | Some s \<Rightarrow> total_distance_km s * AVERAGE_SPEED_KMH / 60 \<noteq> total_time_min s)"
  by code_simp

theorem statistics_nonneg_and_time_witness:
  "calculate_route_statistics (\<lambda>x. False) chain_graph [1, 2, 3] =
     Some \<lparr>total_distance_km = 3, total_time_min = 6, total_fuel_cost = 33 / 20,
           fuel_used_liters = 3 / 10, elevation_gain = 0\<rparr>
   \<and> nonneg_graph chain_graph
   \<and> (6 :: rat) = 3 / AVERAGE_SPEED_KMH * 60"
proof -
  have s: "calculate_route_statistics (\<lambda>x. False) chain_graph [1, 2, 3] =
     Some \<lparr>total_distance_km = 3, total_time_min = 6, total_fuel_cost = 33 / 20,
           fuel_used_liters = 3 / 10, elevation_gain = 0\<rparr>"
    by code_simp
  have n: "nonneg_graph chain_graph"
    by code_simp
  from statistics_nonneg_and_time [OF s n] s n show ?thesis
    by simp
qed

text \<open>
  C8, as the code has it. The fuel is the distance times the fuel rate, rounded to four
  decimals, and the cost is the fuel times the price, rounded to four decimals: each is
  a multiple of 0.0001 within 0.00005 of the unrounded product, whichever way the
  rounding goes at ties, and need not be equal to it.
\<close>

theorem statistics_rounded_consistency:
  assumes "calculate_route_statistics ties_up g route = Some s"
  shows "\<bar>fuel_used_liters s - total_distance_km s * FUEL_CONSUMPTION_PER_KM\<bar> \<le> 1 / 20000
       \<and> \<bar>total_fuel_cost s - fuel_used_liters s * FUEL_COST_PER_LITER\<bar> \<le> 1 / 20000
       \<and> (\<exists>k :: int. fuel_used_liters s = of_int k / 10000)
       \<and> (\<exists>k :: int. total_fuel_cost s = of_int k / 10000)"
proof -
  from assms obtain gdf
    where fuel: "fuel_used_liters s = py_round ties_up (total_distance_km s * FUEL_CONSUMPTION_PER_KM) 4"
    and cost: "total_fuel_cost s = py_round ties_up (fuel_used_liters s * FUEL_COST_PER_LITER) 4"
    by (rule stats_fields)
  have "\<bar>fuel_used_liters s - total_distance_km s * FUEL_CONSUMPTION_PER_KM\<bar> \<le> 1 / 20000"
    unfolding fuel
    using py_round_near [of ties_up "total_distance_km s * FUEL_CONSUMPTION_PER_KM" 4]
    by simp
  moreover have "\<bar>total_fuel_cost s - fuel_used_liters s * FUEL_COST_PER_LITER\<bar> \<le> 1 / 20000"
    unfolding cost
    using py_round_near [of ties_up "fuel_used_liters s * FUEL_COST_PER_LITER" 4]
    by simp
  moreover have "\<exists>k :: int. fuel_used_liters s = of_int k / 10000"
    unfolding fuel py_round_def by (rule exI) simp
  moreover have "\<exists>k :: int. total_fuel_cost s = of_int k / 10000"
    unfolding cost py_round_def by (rule exI) simp
  ultimately show ?thesis
    by blast
qed

text \<open>
  On the single edge of 1234.4 m the distance is 1.2344 km and the fuel 0.1234 l, while
  \<open>1.2344 * 0.1\<close> is 0.12344. No value is at a tie here.
\<close>

theorem statistics_exact_counterexample:
  "(case calculate_route_statistics (\<lambda>x. False) short_graph [1, 2] of
      None \<Rightarrow> False
    | Some s \<Rightarrow> fuel_used_liters s \<noteq> total_distance_km s * FUEL_CONSUMPTION_PER_KM)"
  by code_simp

text \<open>
  At 1117 m the cost is at a tie: 0.1117 l times 5.5 is 0.61435, and the result is
  0.6143 or 0.6144 according to the direction of the rounding.
\<close>

theorem statistics_rounded_consistency_witness:
  "calculate_route_statistics (\<lambda>x. False) tie_graph [1, 2] =
     Some \<lparr>total_distance_km = 1117 / 1000, total_time_min = 2234 / 1000,
           total_fuel_cost = 6143 / 10000, fuel_used_liters = 1117 / 10000, elevation_gain = 0\<rparr>
   \<and> \<bar>(1117 / 10000 :: rat) - 1117 / 1000 * FUEL_CONSUMPTION_PER_KM\<bar> \<le> 1 / 20000
   \<and> \<bar>(6143 / 10000 :: rat) - 1117 / 10000 * FUEL_COST_PER_LITER\<bar> \<le> 1 / 20000"
proof -
  have s: "calculate_route_statistics (\<lambda>x. False) tie_graph [1, 2] =
     Some \<lparr>total_distance_km = 1117 / 1000, total_time_min = 2234 / 1000,
           total_fuel_cost = 6143 / 10000, fuel_used_liters = 1117 / 10000, elevation_gain = 0\<rparr>"
    by code_simp
  from statistics_rounded_consistency [OF s] s show ?thesis
    by simp
qed

subsection \<open>An invalid priority\<close>

lemma criteria_select: "priority \<notin> set criteria \<Longrightarrow> select_weight priority = Inl InvalidPriority"
  by (simp add: criteria_def select_weight_def)

lemma not_criteria_not_tempo: "priority \<notin> set criteria \<Longrightarrow> priority \<noteq> ''tempo''"
  by (auto simp add: criteria_def)

text \<open>
  C5, as the code has it. For a priority outside the four, \<open>find_best_route\<close> raises
  the invalid-priority error and leaves the graph as it was, with no speed or travel-time
  derivation, no length defaulting and no path search, provided the nearest node of each
  of the two points was found. The nearest-node resolution of lines 50 and 51 comes
  before the check of the priority: when it raises, its exception is what the caller
  sees.
\<close>

theorem invalid_priority_after_nearest_nodes:
  assumes "priority \<notin> set criteria"
  shows "find_best_route nearest_nodes add_edge_speeds tie_break g point_a point_b priority =
           (if nearest_nodes g (snd point_a) (fst point_a) = None
               \<or> nearest_nodes g (snd point_b) (fst point_b) = None
            then Inl (LibraryError NearestNodes) else Inl InvalidPriority, g)"
  using criteria_select [OF assms] not_criteria_not_tempo [OF assms]
  by (auto simp add: find_best_route_def split: option.splits)

text \<open>
  On a graph without nodes the nearest-node resolution fails before the priority is
  looked at: the caller does not see the invalid-priority error.
\<close>

theorem invalid_priority_counterexample:
  "select_weight ''rapido'' = Inl InvalidPriority
   \<and> find_best_route nearest_planar (uniform_speeds 30) hd empty_graph (0, 0) (0, 2) ''rapido''
       = (Inl (LibraryError NearestNodes), empty_graph)"
  by (simp add: select_weight_def find_best_route_def nearest_planar_def empty_graph_def)

theorem invalid_priority_after_nearest_nodes_witness:
  "''rapido'' \<notin> set criteria
   \<and> find_best_route nearest_planar (uniform_speeds 30) hd chain_graph (0, 0) (0, 2) ''rapido''
       = (Inl InvalidPriority, chain_graph)"
proof -
  have c: "''rapido'' \<notin> set criteria"
    by (simp add: criteria_def)
  have "nearest_planar chain_graph 0 0 \<noteq> None" "nearest_planar chain_graph 2 0 \<noteq> None"
    by (simp_all add: nearest_planar_def chain_graph_def)
  with invalid_priority_after_nearest_nodes [OF c, where nearest_nodes = nearest_planar
      and add_edge_speeds = "uniform_speeds 30" and tie_break = hd and g = chain_graph
      and point_a = "(0, 0)" and point_b = "(0, 2)"] c
  show ?thesis by simp
qed

lemma shortest_path_error:
  "shortest_path tie_break g orig dest w = Inl e \<Longrightarrow> e = LibraryError ShortestPath"
  by (auto simp add: shortest_path_def split: if_splits list.splits)

lemma add_edge_travel_times_error:
  "add_edge_travel_times g = Inl e \<Longrightarrow> e \<noteq> InvalidPriority"
  by (auto simp add: add_edge_travel_times_def split: if_splits)

text \<open>
  C10. When the priority is not one of the four, and whenever the call fails with the
  invalid-priority error, the graph is left as it was: neither the speed and travel-time
  derivation nor the length defaulting has touched its edges.
\<close>

theorem invalid_priority_leaves_graph:
  assumes "priority \<notin> set criteria
           \<or> fst (find_best_route nearest_nodes add_edge_speeds tie_break g point_a point_b priority)
               = Inl InvalidPriority"
  shows "snd (find_best_route nearest_nodes add_edge_speeds tie_break g point_a point_b priority) = g"
proof -
  have "priority \<notin> set criteria"
  proof (rule ccontr)
    assume "\<not> priority \<notin> set criteria"
    then have "\<exists>w. select_weight priority = Inr w"
      by (auto simp add: criteria_def select_weight_def)
    then have "fst (find_best_route nearest_nodes add_edge_speeds tie_break g point_a point_b priority)
                 \<noteq> Inl InvalidPriority"
      by (auto simp add: find_best_route_def split: option.splits sum.splits
          dest: shortest_path_error add_edge_travel_times_error)
    with assms \<open>\<not> priority \<notin> set criteria\<close> show False by blast
  qed
  then show ?thesis
    using criteria_select not_criteria_not_tempo
    by (auto simp add: find_best_route_def split: option.splits)
qed

theorem invalid_priority_leaves_graph_witness:
  "''rapido'' \<notin> set criteria
   \<and> fst (find_best_route nearest_planar (uniform_speeds 30) hd chain_graph (0, 0) (0, 2) ''rapido'')
       = Inl InvalidPriority
   \<and> snd (find_best_route nearest_planar (uniform_speeds 30) hd chain_graph (0, 0) (0, 2) ''rapido'')
       = chain_graph"
proof -
  have c: "''rapido'' \<notin> set criteria"
    by (simp add: criteria_def)
  have f: "fst (find_best_route nearest_planar (uniform_speeds 30) hd chain_graph (0, 0) (0, 2) ''rapido'')
       = Inl InvalidPriority"
    by code_simp
  from invalid_priority_leaves_graph [where priority = "''rapido''" and nearest_nodes = nearest_planar
      and add_edge_speeds = "uniform_speeds 30" and tie_break = hd and g = chain_graph
      and point_a = "(0, 0)" and point_b = "(0, 2)"] c f
  show ?thesis by blast
qed

subsection \<open>No path between the two nodes\<close>

lemma successors_edge: "v \<in> set (successors g u) \<Longrightarrow> (u, v) \<in> edge_rel g"
  by (auto simp add: successors_def edge_rel_def)

lemma simple_paths_reach:
  "p \<in> set (simple_paths g n seen u t) \<Longrightarrow> (u, t) \<in> (edge_rel g)\<^sup>*"
proof (induction n arbitrary: seen u p)
  case 0
  then show ?case by (simp split: if_splits)
next
  case (Suc n)
  show ?case
  proof (cases "u = t")
    case True
    then show ?thesis by simp
  next
    case False
    with Suc.prems obtain v q where v: "v \<in> set (successors g u)"
      and q: "q \<in> set (simple_paths g n (u # seen) v t)"
      by auto
    have "(u, v) \<in> edge_rel g"
      using v by (rule successors_edge)
    moreover have "(v, t) \<in> (edge_rel g)\<^sup>*"
      using q by (rule Suc.IH)
    ultimately show ?thesis
      by (rule converse_rtrancl_into_rtrancl)
  qed
qed

lemma least_paths_subset: "set (least_paths g w ps) \<subseteq> set ps"
  by (simp add: least_paths_def)

lemma least_paths_nonempty:
  assumes "ps \<noteq> []"
  shows "least_paths g w ps \<noteq> []"
proof -
  have "min_list (map (path_weight g w) ps) = Min (set (map (path_weight g w) ps))"
    using assms by (intro min_list_Min) simp
  moreover have "Min (set (map (path_weight g w) ps)) \<in> set (map (path_weight g w) ps)"
    using assms by (intro Min_in) simp_all
  ultimately obtain p where "p \<in> set ps"
    and "path_weight g w p = min_list (map (path_weight g w) ps)"
    by auto
  then show ?thesis
    by (auto simp add: least_paths_def filter_empty_conv)
qed

lemma least_paths_weight:
  "p \<in> set (least_paths g w ps) \<Longrightarrow> path_weight g w p = Min (path_weight g w ` set ps)"
proof -
  assume p: "p \<in> set (least_paths g w ps)"
  then have "ps \<noteq> []"
    by (auto simp add: least_paths_def)
  then have "min_list (map (path_weight g w) ps) = Min (set (map (path_weight g w) ps))"
    by (intro min_list_Min) simp
  with p show ?thesis
    by (simp add: least_paths_def)
qed

lemma shortest_path_no_path:
  assumes "edges g \<noteq> []"
    and "orig \<in> set (node_ids g)" "dest \<in> set (node_ids g)"
    and "(orig, dest) \<notin> (edge_rel g)\<^sup>*"
  shows "shortest_path tie_break g orig dest w = Inr None"
proof -
  have "simple_paths g (length (edges g)) [] orig dest = []"
  proof (cases "simple_paths g (length (edges g)) [] orig dest")
    case Nil
    then show ?thesis .
  next
    case (Cons p ps)
    then have "p \<in> set (simple_paths g (length (edges g)) [] orig dest)"
      by simp
    then have "(orig, dest) \<in> (edge_rel g)\<^sup>*"
      by (rule simple_paths_reach)
    with assms(4) show ?thesis by simp
  qed
  then show ?thesis
    using assms(1-3) by (simp add: shortest_path_def least_paths_def)
qed

lemma edge_rel_pairs: "edge_rel g = set (map (\<lambda>(u, v, data). (u, v)) (edges g))"
  by (force simp add: edge_rel_def)

lemma same_network_edge_rel: "same_network g g' \<Longrightarrow> edge_rel g' = edge_rel g"
  by (simp add: same_network_def edge_rel_pairs)

lemma same_network_edges: "same_network g g' \<Longrightarrow> edges g \<noteq> [] \<Longrightarrow> edges g' \<noteq> []"
  by (auto simp add: same_network_def)

lemma same_network_default_lengths: "same_network g (default_lengths g)"
  by (simp add: same_network_def default_lengths_def node_ids_def case_prod_unfold comp_def)

lemma same_network_travel_times:
  "add_edge_travel_times g = Inr g' \<Longrightarrow> same_network g g'"
  by (auto simp add: same_network_def add_edge_travel_times_def node_ids_def
      case_prod_unfold comp_def split: if_splits)

lemma same_network_trans: "same_network g g1 \<Longrightarrow> same_network g1 g2 \<Longrightarrow> same_network g g2"
  by (simp add: same_network_def)

lemma search_no_path:
  assumes "same_network g g'" and "edges g \<noteq> []"
    and "orig \<in> set (node_ids g)" "dest \<in> set (node_ids g)"
    and "(orig, dest) \<notin> (edge_rel g)\<^sup>*"
  shows "shortest_path tie_break (default_lengths g') orig dest w = Inr None"
proof -
  have s: "same_network g (default_lengths g')"
    using assms(1) same_network_default_lengths by (rule same_network_trans)
  then have "edge_rel (default_lengths g') = edge_rel g"
    by (rule same_network_edge_rel)
  moreover have "node_ids (default_lengths g') = node_ids g"
    using s by (simp add: same_network_def)
  moreover have "edges (default_lengths g') \<noteq> []"
    using s assms(2) by (rule same_network_edges)
  ultimately show ?thesis
    using assms(3-5) by (simp add: shortest_path_no_path)
qed

text \<open>
  C2, as the code has it. For each of the four priorities, on a graph with at least one
  edge, when the two points resolve to nodes of the graph with no path from the first to
  the second, \<open>find_best_route\<close> returns Python's \<open>None\<close>, with no exception; it never
  returns a node sequence. Under \<open>tempo\<close> the speed and travel-time derivation comes
  first: its exception, or a travel time that is not finite, ends the run of the model
  before the search. The speed derivation is taken to keep the nodes and the edges and
  to change attributes only. (On a graph without any edge the path search raises.)
\<close>

theorem no_path_returns_None:
  assumes "priority \<in> set criteria"
    and "edges g \<noteq> []"
    and "nearest_nodes g (snd point_a) (fst point_a) = Some orig"
    and "nearest_nodes g (snd point_b) (fst point_b) = Some dest"
    and "orig \<in> set (node_ids g)" and "dest \<in> set (node_ids g)"
    and "(orig, dest) \<notin> (edge_rel g)\<^sup>*"
    and "case add_edge_speeds g of None \<Rightarrow> True | Some g1 \<Rightarrow> same_network g g1"
  shows "fst (find_best_route nearest_nodes add_edge_speeds tie_break g point_a point_b priority)
           = Inr None
       \<or> priority = ''tempo''
         \<and> (fst (find_best_route nearest_nodes add_edge_speeds tie_break g point_a point_b priority)
               = Inl (LibraryError AddEdgeSpeeds)
            \<or> fst (find_best_route nearest_nodes add_edge_speeds tie_break g point_a point_b priority)
               = Inl (LibraryError AddEdgeTravelTimes)
            \<or> fst (find_best_route nearest_nodes add_edge_speeds tie_break g point_a point_b priority)
               = Inl NonFinite)"
proof -
  obtain w where w: "select_weight priority = Inr w"
    using assms(1) by (auto simp add: criteria_def select_weight_def)
  show ?thesis
  proof (cases "priority = ''tempo''")
    case False
    have "shortest_path tie_break (default_lengths g) orig dest w = Inr None"
      by (rule search_no_path [OF _ assms(2) assms(5-7)]) (simp add: same_network_def)
    then show ?thesis
      using False w assms(3,4) by (simp add: find_best_route_def)
  next
    case True
    show ?thesis
    proof (cases "add_edge_speeds g")
      case None
      then show ?thesis
        using True assms(3,4) by (simp add: find_best_route_def)
    next
      case (Some g1)
      then have g1: "same_network g g1"
        using assms(8) by simp
      show ?thesis
      proof (cases "add_edge_travel_times g1")
        case (Inl e)
        then have "e = LibraryError AddEdgeTravelTimes \<or> e = NonFinite"
          by (auto simp add: add_edge_travel_times_def split: if_splits)
        then show ?thesis
          using True Some Inl assms(3,4) by (auto simp add: find_best_route_def)
      next
        case (Inr g2)
        have "same_network g g2"
          using g1 same_network_travel_times [OF Inr] by (rule same_network_trans)
        then have "shortest_path tie_break (default_lengths g2) orig dest w = Inr None"
          using assms(2) assms(5-7) by (rule search_no_path)
        then show ?thesis
          using True Some Inr w assms(3,4) by (simp add: find_best_route_def)
      qed
    qed
  qed
qed

text \<open>
  In \<open>split_graph\<close> the points resolve to the nodes 1 and 4, which no path connects; the
  search by distance returns \<open>None\<close>, not an error.
\<close>

theorem no_path_counterexample:
  "nearest_planar split_graph 0 0 = Some 1 \<and> nearest_planar split_graph 6 0 = Some 4
   \<and> (1, 4) \<notin> (edge_rel split_graph)\<^sup>*
   \<and> fst (find_best_route nearest_planar (uniform_speeds 30) hd split_graph (0, 0) (0, 6) ''distancia'')
       = Inr None"
proof -
  have a: "nearest_planar split_graph 0 0 = Some 1" and b: "nearest_planar split_graph 6 0 = Some 4"
    by code_simp+
  have "x \<in> {1, 2}" if "(1, x) \<in> (edge_rel split_graph)\<^sup>*" for x
    using that by (induction rule: rtrancl_induct) (auto simp add: edge_rel_def split_graph_def)
  then have c: "(1, 4) \<notin> (edge_rel split_graph)\<^sup>*"
    by fastforce
  have d: "fst (find_best_route nearest_planar (uniform_speeds 30) hd split_graph (0, 0) (0, 6) ''distancia'')
       = Inr None"
    by code_simp
  from a b c d show ?thesis by blast
qed

theorem no_path_returns_None_witness:
  "''tempo'' \<in> set criteria
   \<and> edges split_graph \<noteq> []
   \<and> nearest_planar split_graph (snd (0 :: rat, 0 :: rat)) (fst (0 :: rat, 0 :: rat)) = Some 1
   \<and> nearest_planar split_graph (snd (0 :: rat, 6 :: rat)) (fst (0 :: rat, 6 :: rat)) = Some 4
   \<and> 1 \<in> set (node_ids split_graph) \<and> 4 \<in> set (node_ids split_graph)
   \<and> (1, 4) \<notin> (edge_rel split_graph)\<^sup>*
   \<and> (case uniform_speeds 30 split_graph of None \<Rightarrow> True | Some g1 \<Rightarrow> same_network split_graph g1)
   \<and> fst (find_best_route nearest_planar (uniform_speeds 30) hd split_graph (0, 0) (0, 6) ''tempo'')
       = Inr None"
proof -
  have c: "''tempo'' \<in> set criteria"
    by (simp add: criteria_def)
  have e: "edges split_graph \<noteq> []"
    by (simp add: split_graph_def)
  have a: "nearest_planar split_graph (snd (0 :: rat, 0 :: rat)) (fst (0 :: rat, 0 :: rat)) = Some 1"
    and b: "nearest_planar split_graph (snd (0 :: rat, 6 :: rat)) (fst (0 :: rat, 6 :: rat)) = Some 4"
    by code_simp+
  have i: "1 \<in> set (node_ids split_graph)" and j: "4 \<in> set (node_ids split_graph)"
    by (simp_all add: node_ids_def split_graph_def)
  have "x \<in> {1, 2}" if "(1, x) \<in> (edge_rel split_graph)\<^sup>*" for x
    using that by (induction rule: rtrancl_induct) (auto simp add: edge_rel_def split_graph_def)
  then have u: "(1, 4) \<notin> (edge_rel split_graph)\<^sup>*"
    by fastforce
  have s: "case uniform_speeds 30 split_graph of None \<Rightarrow> True | Some g1 \<Rightarrow> same_network split_graph g1"
    by (simp add: uniform_speeds_def split_graph_def same_network_def node_ids_def)
  have ok: "fst (find_best_route nearest_planar (uniform_speeds 30) hd split_graph (0, 0) (0, 6) ''tempo'')
       \<noteq> Inl (LibraryError AddEdgeSpeeds)"
    "fst (find_best_route nearest_planar (uniform_speeds 30) hd split_graph (0, 0) (0, 6) ''tempo'')
       \<noteq> Inl (LibraryError AddEdgeTravelTimes)"
    "fst (find_best_route nearest_planar (uniform_speeds 30) hd split_graph (0, 0) (0, 6) ''tempo'')
       \<noteq> Inl NonFinite"
    by code_simp+
  from no_path_returns_None [where priority = "''tempo''" and nearest_nodes = nearest_planar
      and g = split_graph and point_a = "(0, 0)" and point_b = "(0, 6)" and orig = 1 and dest = 4
      and add_edge_speeds = "uniform_speeds 30" and tie_break = hd, OF c e a b i j u s]
    ok c e a b i j u s
  show ?thesis
    by blast
qed

subsection \<open>The path search returns a route exactly when there is a path\<close>

text \<open>
  The search of the model finds every path that visits no node twice, so it returns a
  route whenever the destination can be reached, and the route it returns is a path of
  the graph from the origin to the destination, of the least weight among those paths.
\<close>

lemma edge_successors: "(u, v) \<in> edge_rel g \<Longrightarrow> v \<in> set (successors g u)"
  by (force simp add: successors_def edge_rel_def)

lemma simple_paths_complete:
  "walk g p \<Longrightarrow> p \<noteq> [] \<Longrightarrow> distinct p \<Longrightarrow> set p \<inter> set seen = {} \<Longrightarrow> length p \<le> Suc n
     \<Longrightarrow> p \<in> set (simple_paths g n seen (hd p) (last p))"
proof (induction n arbitrary: p seen)
  case 0
  then obtain u where "p = [u]"
    by (cases p) auto
  then show ?case by simp
next
  case (Suc n)
  from Suc.prems(2) obtain u r where p: "p = u # r"
    by (cases p) auto
  show ?case
  proof (cases r)
    case Nil
    with p show ?thesis by simp
  next
    case (Cons v q)
    have ne: "u \<noteq> last p"
      using Suc.prems(3) p Cons by auto
    have e: "v \<in> set (successors g u)"
      using Suc.prems(1) p Cons by (simp add: edge_successors)
    have f: "v \<notin> set (u # seen)"
      using Suc.prems(3,4) p Cons by auto
    have "v # q \<in> set (simple_paths g n (u # seen) (hd (v # q)) (last (v # q)))"
      using Suc.prems p Cons by (intro Suc.IH) auto
    then have "r \<in> set (simple_paths g n (u # seen) v (last p))"
      using p Cons by simp
    moreover have "v \<in> set (filter (\<lambda>v. v \<notin> set (u # seen)) (successors g u))"
      using e f by simp
    ultimately have "\<exists>v \<in> set (filter (\<lambda>v. v \<notin> set (u # seen)) (successors g u)).
        u # r \<in> set (map ((#) u) (simple_paths g n (u # seen) v (last p)))"
      by (intro bexI [of _ v]) simp_all
    then have "u # r \<in> set (simple_paths g (Suc n) seen u (last p))"
      using ne by (simp del: set_filter filter_set)
    then show ?thesis
      using p by simp
  qed
qed

lemma walk_suffix: "walk g (xs @ ys) \<Longrightarrow> walk g ys"
proof (induction xs)
  case Nil
  then show ?case by simp
next
  case (Cons x xs)
  then show ?case
    by (cases "xs @ ys") auto
qed

lemma rtrancl_distinct_walk:
  assumes "(u, t) \<in> (edge_rel g)\<^sup>*"
  shows "\<exists>p. walk g p \<and> p \<noteq> [] \<and> hd p = u \<and> last p = t \<and> distinct p"
  using assms
proof (induction rule: converse_rtrancl_induct)
  case base
  have "walk g [t] \<and> [t] \<noteq> [] \<and> hd [t] = t \<and> last [t] = t \<and> distinct [t]"
    by simp
  then show ?case by blast
next
  case (step u v)
  then obtain q where q: "walk g q" "q \<noteq> []" "hd q = v" "last q = t" "distinct q"
    by blast
  show ?case
  proof (cases "u \<in> set q")
    case True
    then obtain xs ys where split: "q = xs @ u # ys"
      by (auto simp add: in_set_conv_decomp)
    have "walk g (u # ys)"
      using q(1) split walk_suffix by blast
    moreover have "last (u # ys) = t"
      using q(4) split by simp
    moreover have "distinct (u # ys)"
      using q(5) split by simp
    ultimately have "walk g (u # ys) \<and> u # ys \<noteq> [] \<and> hd (u # ys) = u \<and> last (u # ys) = t
        \<and> distinct (u # ys)"
      by simp
    then show ?thesis by blast
  next
    case False
    obtain r where r: "q = v # r"
      using q(2,3) by (cases q) auto
    have "walk g (u # q)"
      using step.hyps(1) q(1) r by simp
    moreover have "last (u # q) = t"
      using q(2,4) by simp
    moreover have "distinct (u # q)"
      using False q(5) by simp
    ultimately have "walk g (u # q) \<and> u # q \<noteq> [] \<and> hd (u # q) = u \<and> last (u # q) = t
        \<and> distinct (u # q)"
      by simp
    then show ?thesis by blast
  qed
qed

lemma walk_sources: "walk g p \<Longrightarrow> set (butlast p) \<subseteq> fst ` set (edges g)"
proof (induction g p rule: walk.induct)
  case (1 g u v p)
  then have "u \<in> fst ` set (edges g)"
    by (force simp add: edge_rel_def)
  with 1 show ?case by simp
qed simp_all

lemma distinct_walk_length:
  assumes "walk g p" "distinct p"
  shows "length p \<le> Suc (length (edges g))"
proof -
  have "length (butlast p) = card (set (butlast p))"
    using assms(2) by (simp add: distinct_card distinct_butlast)
  also have "\<dots> \<le> card (fst ` set (edges g))"
    by (rule card_mono) (simp_all add: walk_sources [OF assms(1)])
  also have "\<dots> \<le> card (set (edges g))"
    by (rule card_image_le) simp
  also have "\<dots> \<le> length (edges g)"
    by (rule card_length)
  finally show ?thesis by simp
qed

lemma shortest_path_found:
  assumes "edges g \<noteq> []"
    and "orig \<in> set (node_ids g)" "dest \<in> set (node_ids g)"
    and "(orig, dest) \<in> (edge_rel g)\<^sup>*"
  shows "\<exists>p. shortest_path tie_break g orig dest w = Inr (Some p)"
proof -
  from rtrancl_distinct_walk [OF assms(4)] obtain p
    where p: "walk g p" "p \<noteq> []" "hd p = orig" "last p = dest" "distinct p"
    by blast
  have "p \<in> set (simple_paths g (length (edges g)) [] (hd p) (last p))"
    using p distinct_walk_length [OF p(1) p(5)] by (intro simple_paths_complete) simp_all
  then have "simple_paths g (length (edges g)) [] orig dest \<noteq> []"
    using p(3,4) by auto
  then have "least_paths g w (simple_paths g (length (edges g)) [] orig dest) \<noteq> []"
    by (rule least_paths_nonempty)
  then show ?thesis
    using assms(1-3) by (auto simp add: shortest_path_def split: list.splits)
qed

lemma simple_paths_walk:
  "p \<in> set (simple_paths g n seen u t) \<Longrightarrow> walk g p \<and> p \<noteq> [] \<and> hd p = u \<and> last p = t"
proof (induction n arbitrary: seen u p)
  case 0
  then show ?case by (simp split: if_splits)
next
  case (Suc n)
  show ?case
  proof (cases "u = t")
    case True
    with Suc.prems show ?thesis by simp
  next
    case False
    with Suc.prems obtain v q where v: "v \<in> set (successors g u)"
      and q: "q \<in> set (simple_paths g n (u # seen) v t)" and p: "p = u # q"
      by auto
    from Suc.IH [OF q] have w: "walk g q" "q \<noteq> []" "hd q = v" "last q = t"
      by simp_all
    then obtain r where r: "q = v # r"
      by (cases q) auto
    have "(u, v) \<in> edge_rel g"
      using v by (auto simp add: successors_def edge_rel_def)
    then show ?thesis
      using w r p by simp
  qed
qed

lemma shortest_path_is_least:
  assumes "shortest_path tie_break g orig dest w = Inr (Some p)"
  shows "walk g p \<and> p \<noteq> [] \<and> hd p = orig \<and> last p = dest
       \<and> path_weight g w p = Min (path_weight g w ` set (simple_paths g (length (edges g)) [] orig dest))"
proof -
  from assms obtain q qs
    where qs: "least_paths g w (simple_paths g (length (edges g)) [] orig dest) = q # qs"
    and p: "p = (if tie_break (q # qs) \<in> set (q # qs) then tie_break (q # qs) else q)"
    by (auto simp add: shortest_path_def split: if_splits list.splits)
  have "p \<in> set (q # qs)"
    unfolding p by simp
  then have least: "p \<in> set (least_paths g w (simple_paths g (length (edges g)) [] orig dest))"
    using qs by simp
  then have "p \<in> set (simple_paths g (length (edges g)) [] orig dest)"
    using least_paths_subset by blast
  then have "walk g p \<and> p \<noteq> [] \<and> hd p = orig \<and> last p = dest"
    by (rule simple_paths_walk)
  moreover have "path_weight g w p
      = Min (path_weight g w ` set (simple_paths g (length (edges g)) [] orig dest))"
    using least by (rule least_paths_weight)
  ultimately show ?thesis
    by simp
qed

subsection \<open>The time priority\<close>






subsection \<open>The scenario of three nodes\<close>

lemma default_lengths_chain_graph: "default_lengths chain_graph = chain_graph"
  by (simp add: default_lengths_def chain_graph_def setdefault_def)

lemma least_paths_single: "least_paths g w [p] = [p]"
  by (simp add: least_paths_def)

text \<open>
  C1. On the graph A, B, C with edges of 1000 m and 2000 m and grade 0, with the points
  resolved to A and C, the search by distance returns the route A, B, C and leaves the
  graph as it was; the statistics of that route are 3 km, 6 min, 0.3 l of fuel, a cost
  of 1.65 and an elevation gain of 0.
\<close>

theorem chain_graph_scenario:
  assumes "nearest_nodes chain_graph (snd point_a) (fst point_a) = Some 1"
    and "nearest_nodes chain_graph (snd point_b) (fst point_b) = Some 3"
  shows "find_best_route nearest_nodes add_edge_speeds tie_break chain_graph point_a point_b
           ''distancia''
           = (Inr (Some [1, 2, 3]), chain_graph)
       \<and> calculate_route_statistics ties_up chain_graph [1, 2, 3] =
           Some \<lparr>total_distance_km = 3, total_time_min = 6, total_fuel_cost = 165 / 100,
                 fuel_used_liters = 3 / 10, elevation_gain = 0\<rparr>"
proof -
  have "simple_paths chain_graph (length (edges chain_graph)) [] 1 3 = [[1, 2, 3]]"
    by code_simp
  moreover have "edges chain_graph \<noteq> []"
    and "1 \<in> set (node_ids chain_graph)" and "3 \<in> set (node_ids chain_graph)"
    by (simp_all add: chain_graph_def node_ids_def)
  ultimately have p: "shortest_path tie_break chain_graph 1 3 (ByAttr ''length'')
      = Inr (Some [1, 2, 3])"
    by (simp add: shortest_path_def least_paths_single)
  have "find_best_route nearest_nodes add_edge_speeds tie_break chain_graph point_a point_b
           ''distancia''
           = (Inr (Some [1, 2, 3]), chain_graph)"
    using assms p by (simp add: find_best_route_def select_weight_def default_lengths_chain_graph)
  moreover have "calculate_route_statistics ties_up chain_graph [1, 2, 3] =
           Some \<lparr>total_distance_km = 3, total_time_min = 6, total_fuel_cost = 165 / 100,
                 fuel_used_liters = 3 / 10, elevation_gain = 0\<rparr>"
    by code_simp
  ultimately show ?thesis by blast
qed

theorem chain_graph_scenario_witness:
  "nearest_planar chain_graph (snd (0 :: rat, 0 :: rat)) (fst (0 :: rat, 0 :: rat)) = Some 1
   \<and> nearest_planar chain_graph (snd (0 :: rat, 2 :: rat)) (fst (0 :: rat, 2 :: rat)) = Some 3
   \<and> find_best_route nearest_planar (uniform_speeds 30) hd chain_graph (0, 0) (0, 2) ''distancia''
           = (Inr (Some [1, 2, 3]), chain_graph)"
proof -
  have a: "nearest_planar chain_graph (snd (0 :: rat, 0 :: rat)) (fst (0 :: rat, 0 :: rat)) = Some 1"
    and b: "nearest_planar chain_graph (snd (0 :: rat, 2 :: rat)) (fst (0 :: rat, 2 :: rat)) = Some 3"
    by code_simp+
  from chain_graph_scenario [where nearest_nodes = nearest_planar and point_a = "(0, 0)"
      and point_b = "(0, 2)" and add_edge_speeds = "uniform_speeds 30" and tie_break = hd, OF a b] a b
  show ?thesis
    by blast
qed

end
